theory Spec2Isabelle
  imports Main "HOL-Library.Sublist" "HOL-Library.AList"
begin

section \<open>Python strings\<close>

text \<open>
  The string operations of Python that \<^verbatim>\<open>prefix.py\<close> uses. Indices are Python
  integers (\<open>-1\<close> is "not found"), so they are \<open>int\<close> here.
\<close>

fun find_at :: "string \<Rightarrow> string \<Rightarrow> nat \<Rightarrow> int" where
  "find_at sub [] k = (if sub = [] then int k else - 1)"
| "find_at sub (c # cs) k = (if prefix sub (c # cs) then int k else find_at sub cs (Suc k))"

definition py_find :: "string \<Rightarrow> string \<Rightarrow> int" where
  \<comment> \<open>\<^verbatim>\<open>s.find(sub)\<close>\<close>
  "py_find s sub = find_at sub s 0"

definition slice_end :: "string \<Rightarrow> int \<Rightarrow> nat" where
  \<comment> \<open>the end index of a slice: a negative one counts from the end, both are clipped\<close>
  "slice_end s e = (if e < 0 then nat (int (length s) + e) else min (nat e) (length s))"

definition py_find_to :: "string \<Rightarrow> string \<Rightarrow> int \<Rightarrow> int" where
  \<comment> \<open>\<^verbatim>\<open>s.find(sub, 0, e)\<close>: the search is confined to \<^verbatim>\<open>s[0:e]\<close>\<close>
  "py_find_to s sub e = find_at sub (take (slice_end s e) s) 0"

definition py_in :: "string \<Rightarrow> string \<Rightarrow> bool" where
  \<comment> \<open>\<^verbatim>\<open>sub in s\<close>\<close>
  "py_in sub s = (0 \<le> py_find s sub)"

fun split_on :: "char \<Rightarrow> string \<Rightarrow> string list" where
  \<comment> \<open>\<^verbatim>\<open>s.split(c)\<close> for a one-character separator: never the empty list\<close>
  "split_on c [] = [[]]"
| "split_on c (x # xs) =
     (if x = c then [] # split_on c xs
      else (case split_on c xs of [] \<Rightarrow> [[x]] | w # ws \<Rightarrow> (x # w) # ws))"

datatype pyval = PStr string | PBool bool

fun py_eq :: "pyval \<Rightarrow> pyval \<Rightarrow> pyval" where
  \<comment> \<open>\<^verbatim>\<open>x == y\<close>: a string never equals a bool\<close>
  "py_eq (PStr a) (PStr b) = PBool (a = b)"
| "py_eq (PBool a) (PBool b) = PBool (a = b)"
| "py_eq _ _ = PBool False"

fun truthy :: "pyval \<Rightarrow> bool" where
  "truthy (PStr s) = (s \<noteq> [])"
| "truthy (PBool b) = b"

fun py_reduce :: "(pyval \<Rightarrow> pyval \<Rightarrow> pyval) \<Rightarrow> pyval list \<Rightarrow> pyval" where
  \<comment> \<open>\<^verbatim>\<open>functools.reduce(f, xs)\<close> on a list that is not empty\<close>
  "py_reduce f [] = PBool False"
| "py_reduce f (x # xs) = foldl f x xs"

definition py_str :: "string option \<Rightarrow> string" where
  \<comment> \<open>how \<^verbatim>\<open>str.format\<close> prints a value that may be \<^verbatim>\<open>None\<close>\<close>
  "py_str v = (case v of None \<Rightarrow> ''None'' | Some s \<Rightarrow> s)"

definition os_path_join :: "string \<Rightarrow> string \<Rightarrow> string" where
  \<comment> \<open>\<^verbatim>\<open>os.path.join(a, b)\<close> of posixpath\<close>
  "os_path_join a b =
     (if prefix ''/'' b then b
      else if a = [] \<or> last a = CHR ''/'' then a @ b
      else a @ ''/'' @ b)"

section \<open>Package sources and the resolver\<close>

text \<open>
  \<^verbatim>\<open>PackageSource\<close> is declared in \<^verbatim>\<open>cget.package\<close>; \<^verbatim>\<open>prefix.py\<close> builds it
  with the keywords \<^verbatim>\<open>name\<close>, \<^verbatim>\<open>url\<close> and \<^verbatim>\<open>recipe\<close> and reads those three fields.
\<close>

record package_source =
  name :: "string option"
  url :: "string option"
  recipe :: "string option"

definition PackageSource :: "string option \<Rightarrow> string option \<Rightarrow> string option \<Rightarrow> package_source" where
  \<comment> \<open>Modelled from the spec: the class \<^verbatim>\<open>PackageSource\<close> is not under src/. "Optional display
      name, one of local-file URL, remote-archive URL, recipe-directory path".\<close>
  "PackageSource n u r = \<lparr> name = n, url = u, recipe = r \<rparr>"

definition parse_deprecated_alias :: "string \<Rightarrow> string option \<times> string" where
  "parse_deprecated_alias s =
     (let i = py_find_to s '':'' (max (py_find s ''://'') (py_find s [CHR '':'', CHR 0x5C]))
      in if i > 0 then (Some (take (nat i) s), drop (nat i + 1) s) else (None, s))"

definition parse_alias :: "string \<Rightarrow> string option \<times> string" where
  "parse_alias s =
     (let i = py_find s '',''
      in if i > 0 then (Some (take (nat i) s), drop (nat i + 1) s)
         else parse_deprecated_alias s)"

definition parse_src_name :: "string \<Rightarrow> string option \<Rightarrow> string \<times> string option" where
  "parse_src_name u dflt =
     (let x = split_on CHR ''@'' u;
          p = hd x;
          p = (if py_in ''/'' p
               then (let ps = split_on CHR ''/'' p
                     in if truthy (py_reduce py_eq (map PStr ps)) then hd ps else p)
               else p);
          v = dflt;
          v = (if length x > 1 then Some (x ! 1) else v)
      in (p, v))"

text \<open>
  The host the resolver runs on: \<^verbatim>\<open>os.path.exists\<close>, \<^verbatim>\<open>util.actual_path\<close> (a helper of
  \<^verbatim>\<open>cget.util\<close>, taken as a parameter) and the recipe directories of
  \<^verbatim>\<open>get_recipe_paths\<close>, already printed as strings.
\<close>

record host =
  path_exists :: "string \<Rightarrow> bool"
  actual_path :: "string \<Rightarrow> string option \<Rightarrow> string"
  recipe_paths :: "string list"

definition parse_src_file :: "host \<Rightarrow> string option \<Rightarrow> string \<Rightarrow> string option \<Rightarrow> package_source option" where
  "parse_src_file h nm u start =
     (let f = actual_path h u start
      in if path_exists h f then Some (PackageSource nm (Some (''file://'' @ f)) None) else None)"

fun first_recipe :: "host \<Rightarrow> string \<Rightarrow> string option \<Rightarrow> string list \<Rightarrow> string option" where
  \<comment> \<open>the loop over \<^verbatim>\<open>get_recipe_paths()\<close>; \<^verbatim>\<open>os.path.normcase\<close> is the identity on posix\<close>
  "first_recipe h p v [] = None"
| "first_recipe h p v (rpath # rest) =
     (let rp = os_path_join (os_path_join rpath p) (case v of None \<Rightarrow> '''' | Some w \<Rightarrow> w)
      in if path_exists h rp then Some rp else first_recipe h p v rest)"

definition parse_src_recipe :: "host \<Rightarrow> string option \<Rightarrow> string \<Rightarrow> package_source option" where
  "parse_src_recipe h nm u =
     (case parse_src_name u None of (p, v) \<Rightarrow>
        (case first_recipe h p v (recipe_paths h) of
           Some rp \<Rightarrow>
             Some (PackageSource (if nm = None \<or> nm = Some [] then Some p else nm) None (Some rp))
         | None \<Rightarrow> None))"

definition parse_src_github :: "string option \<Rightarrow> string \<Rightarrow> package_source" where
  "parse_src_github nm u =
     (case parse_src_name u (Some ''HEAD'') of (p, v) \<Rightarrow>
        (let u' = (if py_in ''/'' p
                   then ''https://github.com/'' @ p @ ''/archive/'' @ py_str v @ ''.tar.gz''
                   else ''https://github.com/'' @ p @ ''/'' @ p @ ''/archive/'' @ py_str v @ ''.tar.gz'');
             nm' = (if nm = None then Some p else nm)
         in PackageSource nm' (Some u') None))"

definition or_else :: "'a option \<Rightarrow> 'a option \<Rightarrow> 'a option" where
  \<comment> \<open>\<^verbatim>\<open>a or b\<close> on values that are \<^verbatim>\<open>None\<close> or an object\<close>
  "or_else a b = (case a of None \<Rightarrow> b | Some x \<Rightarrow> Some x)"

definition parse_pkg_src :: "host \<Rightarrow> string \<Rightarrow> string option \<Rightarrow> bool \<Rightarrow> package_source" where
  \<comment> \<open>the branch of \<^verbatim>\<open>parse_pkg_src\<close> for a raw token (a string)\<close>
  "parse_pkg_src h pkg start no_recipe =
     (case parse_alias pkg of (nm, u) \<Rightarrow>
        (if \<not> py_in ''://'' u
         then (case or_else (parse_src_file h nm u start)
                            (if no_recipe then None else parse_src_recipe h nm u) of
                 Some src \<Rightarrow> src
               | None \<Rightarrow> parse_src_github nm u)
         else PackageSource nm (Some u) None))"

section \<open>Package builds\<close>

text \<open>
  \<^verbatim>\<open>PackageBuild\<close> is declared in \<^verbatim>\<open>cget.package\<close>. The fields are the attributes that
  \<^verbatim>\<open>prefix.py\<close> reads or writes (\<^verbatim>\<open>define\<close> and \<^verbatim>\<open>file\<close> are spelt \<open>pb_define\<close> and \<open>pb_file\<close>).
\<close>

record package_build =
  pkg_src :: package_source
  pb_define :: "(string \<times> string) list"
  parent :: "string option"
  test :: bool
  build :: bool
  hash :: "string option"
  cmake :: "string option"
  variant :: "string option"
  requirements :: "string option"
  pb_file :: "string option"
  ignore_requirements :: bool

definition PackageBuild :: "package_source \<Rightarrow> package_build" where
  \<comment> \<open>Modelled from the spec: the class \<^verbatim>\<open>PackageBuild\<close> is not under src/.
      \<^verbatim>\<open>PackageBuild(pkg_src)\<close> "owns a PackageSource, plus build options": none is set.\<close>
  "PackageBuild src =
     \<lparr> pkg_src = src, pb_define = [], parent = None, test = False, build = False, hash = None,
       cmake = None, variant = None, requirements = None, pb_file = None,
       ignore_requirements = False \<rparr>"

definition merge :: "package_build \<Rightarrow> package_build \<Rightarrow> package_build" where
  \<comment> \<open>Modelled from the spec: \<^verbatim>\<open>PackageBuild.merge\<close> is not under src/. "Merged with any
      build options supplied by the caller (caller options win on conflict)": a field the
      caller \<open>other\<close> sets replaces the recipe's, a define of the caller replaces the recipe's
      define of the same key, and the source stays the recipe's.\<close>
  "merge p other =
     p \<lparr> pb_define := filter (\<lambda>kv. fst kv \<notin> fst ` set (pb_define other)) (pb_define p) @ pb_define other,
         parent := or_else (parent other) (parent p),
         test := (test other \<or> test p),
         build := (build other \<or> build p),
         hash := or_else (hash other) (hash p),
         cmake := or_else (cmake other) (cmake p),
         variant := or_else (variant other) (variant p),
         requirements := or_else (requirements other) (requirements p),
         pb_file := or_else (pb_file other) (pb_file p),
         ignore_requirements := (ignore_requirements other \<or> ignore_requirements p) \<rparr>"

section \<open>The file system\<close>

text \<open>
  The store is nothing but directories and marker files, so the state of the program is a
  file system: a finite table from paths (lists of components below the root) to nodes.
  Symbolic links are leaves; the model does not follow them.
\<close>

type_synonym path = "string list"

datatype node = Dir | File string | Symlink path

type_synonym filesys = "(path \<times> node) list"

definition lookup :: "filesys \<Rightarrow> path \<Rightarrow> node option" where
  "lookup t p = map_of t p"

definition exists_path :: "filesys \<Rightarrow> path \<Rightarrow> bool" where
  \<comment> \<open>\<^verbatim>\<open>Path.exists\<close>, \<^verbatim>\<open>os.path.exists\<close>; the root always exists\<close>
  "exists_path t p = (p = [] \<or> lookup t p \<noteq> None)"

definition is_dir :: "filesys \<Rightarrow> path \<Rightarrow> bool" where
  "is_dir t p = (p = [] \<or> lookup t p = Some Dir)"

definition is_file :: "filesys \<Rightarrow> path \<Rightarrow> bool" where
  "is_file t p = (case lookup t p of Some (File c) \<Rightarrow> True | _ \<Rightarrow> False)"

definition path_of :: "string \<Rightarrow> path" where
  \<comment> \<open>the components of a path given as a string (relative paths start at the root)\<close>
  "path_of s = filter (\<lambda>c. c \<noteq> []) (split_on CHR ''/'' s)"

definition str_of_path :: "path \<Rightarrow> string" where
  "str_of_path p = concat (map (\<lambda>c. ''/'' @ c) p)"

definition str_exists :: "filesys \<Rightarrow> string \<Rightarrow> bool" where
  \<comment> \<open>\<^verbatim>\<open>os.path.exists\<close> on a string: the empty string names nothing\<close>
  "str_exists t s = (s \<noteq> [] \<and> exists_path t (path_of s))"

datatype error =
  TypeError | AttributeError | OSError | StopIteration | RecursionError
  | BuildError | ConfigurationError

definition rmtree :: "filesys \<Rightarrow> path \<Rightarrow> filesys" where
  \<comment> \<open>\<^verbatim>\<open>shutil.rmtree\<close>\<close>
  "rmtree t p = filter (\<lambda>(q, n). \<not> prefix p q) t"

definition children :: "filesys \<Rightarrow> path \<Rightarrow> path list" where
  "children t d = map fst (filter (\<lambda>(q, n). q \<noteq> [] \<and> butlast q = d) t)"

definition move :: "filesys \<Rightarrow> path \<Rightarrow> path \<Rightarrow> filesys" where
  "move t src dst =
     map (\<lambda>(q, n). (if prefix src q then dst @ drop (length src) q else q, n))
         (filter (\<lambda>(q, n). q \<noteq> dst) t)"

definition os_rename :: "filesys \<Rightarrow> path \<Rightarrow> path \<Rightarrow> error + filesys" where
  \<comment> \<open>\<^verbatim>\<open>os.rename\<close> (POSIX rename): the source must exist, a directory does not move
      into itself, and a directory replaces only an empty directory\<close>
  "os_rename t src dst =
     (if src = [] \<or> dst = [] \<or> lookup t src = None then Inl OSError
      else if src = dst then Inr t
      else if prefix src dst then Inl OSError
      else (case lookup t dst of
              None \<Rightarrow> if is_dir t (butlast dst) then Inr (move t src dst) else Inl OSError
            | Some Dir \<Rightarrow>
                if lookup t src = Some Dir \<and> children t dst = [] then Inr (move t src dst)
                else Inl OSError
            | Some _ \<Rightarrow>
                if lookup t src = Some Dir then Inl OSError else Inr (move t src dst)))"

definition copyfile :: "filesys \<Rightarrow> path \<Rightarrow> path \<Rightarrow> error + filesys" where
  \<comment> \<open>\<^verbatim>\<open>shutil.copyfile\<close>\<close>
  "copyfile t src dst =
     (case lookup t src of
        Some (File c) \<Rightarrow>
          if is_dir t (butlast dst) \<and> lookup t dst \<noteq> Some Dir
          then Inr (AList.update dst (File c) t) else Inl OSError
      | _ \<Rightarrow> Inl OSError)"

subsection \<open>The helpers of cget.util\<close>

definition mkdir :: "filesys \<Rightarrow> path \<Rightarrow> filesys" where
  \<comment> \<open>Modelled from the spec: \<^verbatim>\<open>util.mkdir\<close> is not under src/. It creates the directory
      with the ancestors that are missing ("create the store entry") and leaves what
      exists alone.\<close>
  "mkdir t p = t @ map (\<lambda>q. (q, Dir)) (filter (\<lambda>q. lookup t q = None) (tl (prefixes p)))"

definition mkfile :: "filesys \<Rightarrow> path \<Rightarrow> string \<Rightarrow> string \<Rightarrow> filesys" where
  \<comment> \<open>Modelled from the spec: \<^verbatim>\<open>util.mkfile\<close> is not under src/. \<^verbatim>\<open>mkfile(d, file, content)\<close>
      makes the marker file \<^verbatim>\<open>d/file\<close> ("one marker file per dependent identity", "an ignore
      marker file"), creating \<^verbatim>\<open>d\<close> when it is missing.\<close>
  "mkfile t d f content = AList.update (d @ [f]) (File content) (mkdir t d)"

definition ls :: "filesys \<Rightarrow> path \<Rightarrow> (filesys \<Rightarrow> path \<Rightarrow> bool) \<Rightarrow> string list" where
  \<comment> \<open>Modelled from the spec: \<^verbatim>\<open>util.ls\<close> is not under src/. The names in directory \<open>d\<close>
      that satisfy the predicate ("enumerates store entries"); none when \<open>d\<close> is missing.\<close>
  "ls t d pred = map last (filter (pred t) (children t d))"

definition delete_dir :: "filesys \<Rightarrow> path \<Rightarrow> filesys" where
  \<comment> \<open>Modelled from the spec: \<^verbatim>\<open>util.delete_dir\<close> is not under src/. "Delete the store
      entry outright".\<close>
  "delete_dir t p = rmtree t p"

definition files_under :: "filesys \<Rightarrow> path \<Rightarrow> (path \<times> string) list" where
  \<comment> \<open>the regular files below \<open>src\<close>: path relative to \<open>src\<close>, and content\<close>
  "files_under t src =
     concat (map (\<lambda>(q, n). case n of
                    File c \<Rightarrow> if strict_prefix src q then [(drop (length src) q, c)] else []
                  | _ \<Rightarrow> []) t)"

definition rm_symlink_from :: "filesys \<Rightarrow> path \<Rightarrow> path \<Rightarrow> filesys" where
  \<comment> \<open>Modelled from the spec: \<^verbatim>\<open>util.rm_symlink_from\<close> is not under src/. "Remove every
      path under install/ from the prefix tree (symlink removal ...)": the links of the
      prefix that point into \<open>src\<close> go.\<close>
  "rm_symlink_from t src dst =
     filter (\<lambda>(q, n). \<not> list_ex (\<lambda>(r, c). q = dst @ r \<and> n = Symlink (src @ r)) (files_under t src)) t"

definition rm_dup_dir :: "filesys \<Rightarrow> path \<Rightarrow> path \<Rightarrow> filesys" where
  \<comment> \<open>Modelled from the spec: \<^verbatim>\<open>util.rm_dup_dir\<close> is not under src/. "Duplicate-file
      removal otherwise": the files of the prefix that copy a file of \<open>src\<close> go
      (\<^verbatim>\<open>remove_both=False\<close>: \<open>src\<close> keeps its own).\<close>
  "rm_dup_dir t src dst =
     filter (\<lambda>(q, n). \<not> list_ex (\<lambda>(r, c). q = dst @ r \<and> n = File c) (files_under t src)) t"

definition rm_empty_dirs :: "filesys \<Rightarrow> path \<Rightarrow> filesys" where
  \<comment> \<open>Modelled from the spec: \<^verbatim>\<open>util.rm_empty_dirs\<close> is not under src/. "Then prune
      now-empty prefix directories": a directory below \<open>root\<close> with no file or link
      anywhere beneath it goes.\<close>
  "rm_empty_dirs t root =
     filter (\<lambda>(q, n). \<not> (n = Dir \<and> strict_prefix root q
                          \<and> \<not> list_ex (\<lambda>(q', n'). n' \<noteq> Dir \<and> prefix q q') t)) t"

definition symlink_dir :: "filesys \<Rightarrow> path \<Rightarrow> path \<Rightarrow> filesys" where
  \<comment> \<open>Modelled from the spec: \<^verbatim>\<open>util.symlink_dir\<close> is not under src/. "Re-publish every
      path under install/ into the prefix tree (create symlink ...)".\<close>
  "symlink_dir t src dst =
     fold (\<lambda>(r, c) t'. AList.update (dst @ r) (Symlink (src @ r)) (mkdir t' (butlast (dst @ r))))
          (files_under t src) t"

definition copy_dir :: "filesys \<Rightarrow> path \<Rightarrow> path \<Rightarrow> filesys" where
  \<comment> \<open>Modelled from the spec: \<^verbatim>\<open>util.copy_dir\<close> is not under src/. "... or copy file, per
      composition mode".\<close>
  "copy_dir t src dst =
     fold (\<lambda>(r, c) t'. AList.update (dst @ r) (File c) (mkdir t' (butlast (dst @ r))))
          (files_under t src) t"


section \<open>The store and the install orchestrator\<close>

text \<open>
  The state of a run: the file system, and the calls made to the Builder collaborator
  (\<^verbatim>\<open>cget.builder\<close>, external to the store), each with the directory the Builder works in.
\<close>

datatype builder_call = Fetch | Configure | Build "string option" | Test

record state =
  fs :: filesys
  calls :: "(path \<times> builder_call) list"

text \<open>\<^verbatim>\<open>Builder(self, d, exists)\<close>: the prefix it installs into, its directory, and the flag.\<close>

record builder =
  b_prefix :: path
  top_dir :: path
  b_exists :: bool

text \<open>
  A \<^verbatim>\<open>CGetPrefix\<close> object on its host. What \<^verbatim>\<open>prefix.py\<close> takes from modules that are
  not under src/ is a parameter: the identity codec (\<^verbatim>\<open>to_fname\<close> and \<^verbatim>\<open>to_name\<close> of a
  build, \<^verbatim>\<open>to_fname\<close> of a source, \<^verbatim>\<open>fname_to_pkg\<close>), the helpers \<^verbatim>\<open>util.actual_path\<close> and
  \<^verbatim>\<open>util.cget_dir('cmake', p)\<close>, the reading of a specification file (the body of
  \<^verbatim>\<open>from_file\<close>, which needs \<^verbatim>\<open>shlex\<close> and \<^verbatim>\<open>parse_pkg_build_tokens\<close>), and the four
  operations of the Builder, which change the file system or fail.
\<close>

record cget =
  prefix_dir :: path
  os_name :: string
  use_symlinks :: bool
  to_fname :: "package_build \<Rightarrow> string"
  to_name :: "package_build \<Rightarrow> string"
  src_to_fname :: "package_source \<Rightarrow> string"
  fname_to_pkg :: "string \<Rightarrow> package_source"
  util_actual_path :: "string \<Rightarrow> string option \<Rightarrow> string"
  cget_dir :: "string \<Rightarrow> string"
  parse_file :: "filesys \<Rightarrow> string \<Rightarrow> string option \<Rightarrow> bool \<Rightarrow> package_build list"
  b_fetch :: "builder \<Rightarrow> package_build \<Rightarrow> filesys \<Rightarrow> (error + path) \<times> filesys"
  b_configure :: "builder \<Rightarrow> path \<Rightarrow> package_build \<Rightarrow> bool \<Rightarrow> filesys \<Rightarrow> (error + unit) \<times> filesys"
  b_build :: "builder \<Rightarrow> package_build \<Rightarrow> string option \<Rightarrow> filesys \<Rightarrow> (error + unit) \<times> filesys"
  b_test :: "builder \<Rightarrow> package_build \<Rightarrow> filesys \<Rightarrow> (error + unit) \<times> filesys"
  cmake_original_file :: string

text \<open>
  A method that may raise returns the error or its value, and the state as it is at that
  moment: what was written before an exception stays written.
\<close>

type_synonym 'a m = "state \<Rightarrow> (error + 'a) \<times> state"

definition ret :: "'a \<Rightarrow> 'a m" where
  "ret x s = (Inr x, s)"

definition then_do :: "'a m \<Rightarrow> ('a \<Rightarrow> 'b m) \<Rightarrow> 'b m" where
  "then_do f g s = (case f s of (Inl e, s') \<Rightarrow> (Inl e, s') | (Inr x, s') \<Rightarrow> g x s')"

definition and_then :: "error + 'a \<Rightarrow> ('a \<Rightarrow> error + 'b) \<Rightarrow> error + 'b" where
  \<comment> \<open>the same for a computation that only reads\<close>
  "and_then r g = (case r of Inl e \<Rightarrow> Inl e | Inr x \<Rightarrow> g x)"

definition read_fs :: "(filesys \<Rightarrow> error + 'a) \<Rightarrow> 'a m" where
  "read_fs f s = (f (fs s), s)"

definition modify_fs :: "(filesys \<Rightarrow> filesys) \<Rightarrow> unit m" where
  "modify_fs f s = (Inr (), s\<lparr>fs := f (fs s)\<rparr>)"

definition try_fs :: "(filesys \<Rightarrow> error + filesys) \<Rightarrow> unit m" where
  "try_fs f s = (case f (fs s) of Inl e \<Rightarrow> (Inl e, s) | Inr t \<Rightarrow> (Inr (), s\<lparr>fs := t\<rparr>))"

definition call_builder :: "builder \<Rightarrow> builder_call \<Rightarrow> (filesys \<Rightarrow> (error + 'a) \<times> filesys) \<Rightarrow> 'a m" where
  "call_builder b c f s =
     (case f (fs s) of (r, t) \<Rightarrow> (r, \<lparr> fs = t, calls = calls s @ [(top_dir b, c)] \<rparr>))"

fun for_each :: "'a list \<Rightarrow> ('a \<Rightarrow> unit m) \<Rightarrow> unit m" where
  "for_each [] f s = (Inr (), s)"
| "for_each (x # xs) f s =
     (case f x s of (Inl e, s') \<Rightarrow> (Inl e, s') | (Inr u, s') \<Rightarrow> for_each xs f s')"

subsection \<open>Resolving a package specification\<close>

definition get_private_path :: "cget \<Rightarrow> path" where
  "get_private_path c = prefix_dir c @ [''cget'']"

definition get_public_path :: "cget \<Rightarrow> path" where
  "get_public_path c = prefix_dir c @ [''etc'', ''cget'']"

definition get_recipe_paths :: "cget \<Rightarrow> string list" where
  "get_recipe_paths c = [str_of_path (get_public_path c @ [''recipes''])]"

definition host_of :: "cget \<Rightarrow> filesys \<Rightarrow> host" where
  \<comment> \<open>what the resolver sees of the prefix object and of the file system as it is now\<close>
  "host_of c t =
     \<lparr> path_exists = str_exists t, actual_path = util_actual_path c,
       recipe_paths = get_recipe_paths c \<rparr>"

definition py_true :: "string option \<Rightarrow> bool" where
  \<comment> \<open>the truth value of an attribute that is \<^verbatim>\<open>None\<close> or a string\<close>
  "py_true v = (v \<noteq> None \<and> v \<noteq> Some [])"

definition find_cmake :: "cget \<Rightarrow> filesys \<Rightarrow> string \<Rightarrow> string option \<Rightarrow> string" where
  "find_cmake c t p start =
     (if p \<noteq> [] \<and> \<not> prefix ''/'' p
      then (let absp = util_actual_path c p start
            in if str_exists t absp then absp
               else (let x = cget_dir c p
                     in if str_exists t x then x
                        else if str_exists t (x @ ''.cmake'') then x @ ''.cmake''
                        else p))
      else p)"

definition from_file :: "cget \<Rightarrow> filesys \<Rightarrow> string option \<Rightarrow> string option \<Rightarrow> bool \<Rightarrow> package_build list" where
  \<comment> \<open>the builds the generator yields: none for no file or a missing file\<close>
  "from_file c t f u no_recipe =
     (case f of None \<Rightarrow> []
      | Some fl \<Rightarrow> if \<not> str_exists t fl then [] else parse_file c t fl u no_recipe)"

definition ensure_exists :: "filesys \<Rightarrow> string \<Rightarrow> error + unit" where
  \<comment> \<open>Modelled from the spec: \<^verbatim>\<open>util.ensure_exists\<close> is not under src/. "Reading a recipe
      directory requires a package.txt file (fails with ConfigurationError if absent)".\<close>
  "ensure_exists t f = (if str_exists t f then Inr () else Inl ConfigurationError)"

text \<open>
  The second argument of \<^verbatim>\<open>from_recipe\<close> is \<^verbatim>\<open>None\<close>, or the caller's PackageBuild, or,
  in the call that \<^verbatim>\<open>parse_pkg_build\<close> makes for a raw token or a source
  (\<^verbatim>\<open>self.from_recipe(pkg_src.recipe, pkg_src.name)\<close>), the name: a string, or \<^verbatim>\<open>None\<close>.
  \<^verbatim>\<open>if pkg:\<close> holds for a build and for a string that is not empty, and then
  \<^verbatim>\<open>pkg.pkg_src\<close> is read: of a string that raises AttributeError.
\<close>

datatype recipe_caller = NoCaller | NameCaller string | BuildCaller package_build

fun caller_true :: "recipe_caller \<Rightarrow> bool" where
  "caller_true NoCaller = False"
| "caller_true (NameCaller s) = (s \<noteq> [])"
| "caller_true (BuildCaller b) = True"

definition from_recipe :: "cget \<Rightarrow> filesys \<Rightarrow> string \<Rightarrow> recipe_caller \<Rightarrow> string option \<Rightarrow> error + package_build" where
  \<comment> \<open>\<^verbatim>\<open>self.check\<close> asks that \<^verbatim>\<open>p.pkg_src\<close> is set, which a record always has\<close>
  "from_recipe c t rcp pkg nm =
     (let recipe_pkg = os_path_join rcp ''package.txt''
      in case ensure_exists t recipe_pkg of
           Inl e \<Rightarrow> Inl e
         | Inr u \<Rightarrow>
            (case from_file c t (Some recipe_pkg) None True of
               [] \<Rightarrow> Inl StopIteration
             | p # rest \<Rightarrow>
                (let reqs = os_path_join rcp ''requirements.txt'';
                     p = (if str_exists t reqs then p\<lparr>requirements := Some reqs\<rparr> else p);
                     p = p\<lparr>pkg_src := (pkg_src p)\<lparr>recipe := None\<rparr>\<rparr>
                 in and_then
                      (if caller_true pkg
                       then (case pkg of
                               BuildCaller b \<Rightarrow>
                                 Inr (p\<lparr>pkg_src := (pkg_src p)\<lparr>name := name (pkg_src b)\<rparr>\<rparr>)
                             | _ \<Rightarrow> Inl AttributeError)
                       else if py_true nm
                            then Inr (p\<lparr>pkg_src := (pkg_src p)\<lparr>name := nm\<rparr>\<rparr>)
                            else Inr p)
                      (\<lambda>p. case pkg of BuildCaller b \<Rightarrow> Inr (merge p b) | _ \<Rightarrow> Inr p))))"

text \<open>
  What the store's methods accept (\<^verbatim>\<open>PACKAGE_SOURCE_TYPES\<close>): a raw token, a source, or a
  build. The \<^verbatim>\<open>pkg_src\<close> of a build is a source, or still the raw token it was made from
  (\<^verbatim>\<open>parse_pkg_build_tokens\<close>): \<open>Unresolved tok b\<close> is the build \<open>b\<close> with the token \<open>tok\<close>
  in the place of its source.
\<close>

datatype pkg_arg =
  Token string | Source package_source | Build_of package_build
  | Unresolved string package_build

fun parse_pkg_src_of ::
  "cget \<Rightarrow> filesys \<Rightarrow> pkg_arg option \<Rightarrow> string option \<Rightarrow> bool \<Rightarrow> error + package_source" where
  \<comment> \<open>\<^verbatim>\<open>parse_pkg_src\<close>; of \<^verbatim>\<open>None\<close> both \<^verbatim>\<open>isinstance\<close> tests fail and \<^verbatim>\<open>parse_alias(None)\<close>
      raises at \<^verbatim>\<open>s.find\<close> (a decorator of \<^verbatim>\<open>cget.types\<close> that checks the type would
      raise at the same call)\<close>
  "parse_pkg_src_of c t None start no_recipe = Inl AttributeError"
| "parse_pkg_src_of c t (Some (Source src)) start no_recipe = Inr src"
| "parse_pkg_src_of c t (Some (Build_of b)) start no_recipe = Inr (pkg_src b)"
| "parse_pkg_src_of c t (Some (Unresolved tok b)) start no_recipe =
     Inr (parse_pkg_src (host_of c t) tok start False)"
| "parse_pkg_src_of c t (Some (Token tok)) start no_recipe =
     Inr (parse_pkg_src (host_of c t) tok start no_recipe)"

definition resolve_build ::
  "cget \<Rightarrow> filesys \<Rightarrow> package_build \<Rightarrow> package_source \<Rightarrow> string option \<Rightarrow> error + package_build" where
  \<comment> \<open>the branch of \<^verbatim>\<open>parse_pkg_build\<close> for a PackageBuild, once \<^verbatim>\<open>pkg.pkg_src\<close> is parsed\<close>
  "resolve_build c t b src start =
     (let pkg = b\<lparr>pkg_src := src\<rparr>
      in and_then
           (if py_true (recipe src)
            then from_recipe c t (py_str (recipe src)) (BuildCaller pkg) None
            else Inr pkg)
           (\<lambda>pkg. if py_true (cmake pkg)
                   then Inr (pkg\<lparr>cmake := Some (find_cmake c t (py_str (cmake pkg)) start)\<rparr>)
                   else Inr pkg))"

definition resolve_source :: "cget \<Rightarrow> filesys \<Rightarrow> package_source \<Rightarrow> error + package_build" where
  \<comment> \<open>the other branch, once the argument is parsed into \<^verbatim>\<open>pkg_src\<close>\<close>
  "resolve_source c t src =
     (if py_true (recipe src)
      then from_recipe c t (py_str (recipe src))
             (case name src of None \<Rightarrow> NoCaller | Some n \<Rightarrow> NameCaller n) None
      else Inr (PackageBuild src))"

fun parse_pkg_build ::
  "cget \<Rightarrow> filesys \<Rightarrow> pkg_arg \<Rightarrow> string option \<Rightarrow> bool \<Rightarrow> error + package_build" where
  "parse_pkg_build c t (Build_of b) start no_recipe = resolve_build c t b (pkg_src b) start"
| "parse_pkg_build c t (Unresolved tok b) start no_recipe =
     resolve_build c t b (parse_pkg_src (host_of c t) tok start no_recipe) start"
| "parse_pkg_build c t (Source src) start no_recipe = resolve_source c t src"
| "parse_pkg_build c t (Token tok) start no_recipe =
     resolve_source c t (parse_pkg_src (host_of c t) tok start no_recipe)"

subsection \<open>Paths of the store\<close>

definition get_package_directory :: "cget \<Rightarrow> filesys \<Rightarrow> pkg_arg \<Rightarrow> error + path" where
  "get_package_directory c t pb =
     and_then (parse_pkg_build c t pb None False)
       (\<lambda>pb. Inr (get_private_path c @ [to_fname c pb]))"

definition get_unlink_directory :: "cget \<Rightarrow> filesys \<Rightarrow> pkg_arg \<Rightarrow> error + path" where
  "get_unlink_directory c t pb =
     and_then (get_package_directory c t pb) (\<lambda>d. Inr (d @ [''.unlink'']))"

definition get_deps_directory :: "cget \<Rightarrow> filesys \<Rightarrow> pkg_arg \<Rightarrow> error + path" where
  "get_deps_directory c t pb =
     and_then (get_package_directory c t pb) (\<lambda>d. Inr (d @ [''.depend'']))"

subsection \<open>Dependency edges\<close>

text \<open>
  \<^verbatim>\<open>write_parent\<close> hands \<^verbatim>\<open>pb.to_fname()\<close>, a string, to \<^verbatim>\<open>get_deps_directory\<close>, which
  resolves it as a raw token before it takes the identity: the write goes to the entry
  that this resolution names, or does not happen when the resolution raises.
\<close>

definition write_parent :: "cget \<Rightarrow> package_build \<Rightarrow> bool \<Rightarrow> unit m" where
  "write_parent c pb track s =
     (case parent pb of
        Some par \<Rightarrow>
          if track
          then (case get_deps_directory c (fs s) (Token (to_fname c pb)) of
                  Inl e \<Rightarrow> (Inl e, s)
                | Inr d \<Rightarrow> (Inr (), s\<lparr>fs := mkfile (fs s) d par par\<rparr>))
          else (Inr (), s)
      | None \<Rightarrow> (Inr (), s))"

definition pb_of :: "cget \<Rightarrow> package_build \<Rightarrow> package_build \<Rightarrow> package_build" where
  \<comment> \<open>Modelled from the spec: \<^verbatim>\<open>PackageBuild.of\<close> is not under src/. The dependency gets
      the "parent label used for dependency-edge tracking": the identity of the
      package that requires it ("one empty marker file per dependent identity").\<close>
  "pb_of c dependent pb = dependent\<lparr>parent := Some (to_fname c pb)\<rparr>"

subsection \<open>Link and unlink\<close>

text \<open>
  In \<^verbatim>\<open>unlink\<close> the branch for \<^verbatim>\<open>delete\<close> unset calls \<^verbatim>\<open>self.get_unlink_directory()\<close> with
  no argument, and the method requires \<^verbatim>\<open>pb\<close>: the call raises TypeError, so the
  \<^verbatim>\<open>os.rename\<close> after it is never reached. In \<^verbatim>\<open>link\<close> the body of the loop reads
  \<^verbatim>\<open>self.get_unlink_deps_directory\<close>, an attribute that the class does not have: the first
  iteration raises AttributeError before anything is linked.
\<close>

definition unlink :: "cget \<Rightarrow> pkg_arg \<Rightarrow> bool \<Rightarrow> unit m" where
  "unlink c pkg delete =
     then_do (read_fs (\<lambda>t. parse_pkg_src_of c t (Some pkg) None False))
     (\<lambda>pkg. then_do (read_fs (\<lambda>t. get_package_directory c t (Source pkg)))
     (\<lambda>pkg_dir. then_do (read_fs (\<lambda>t. get_unlink_directory c t (Source pkg)))
     (\<lambda>unlink_dir s.
        if exists_path (fs s) pkg_dir
        then then_do
               (modify_fs (\<lambda>t. rm_empty_dirs
                                  (if use_symlinks c
                                   then rm_symlink_from t (pkg_dir @ [''install'']) (prefix_dir c)
                                   else rm_dup_dir t (pkg_dir @ [''install'']) (prefix_dir c))
                                  (prefix_dir c)))
               (\<lambda>u. if delete then modify_fs (\<lambda>t. delete_dir t pkg_dir)
                     else (\<lambda>s'. (Inl TypeError, s')))
               s
        else (Inr (), s))))"

definition remove :: "cget \<Rightarrow> pkg_arg \<Rightarrow> unit m" where
  "remove c pkg = unlink c pkg True"

definition link :: "cget \<Rightarrow> pkg_arg \<Rightarrow> unit m" where
  "link c pkg =
     then_do (read_fs (\<lambda>t. parse_pkg_src_of c t (Some pkg) None False))
     (\<lambda>pkg. then_do (read_fs (\<lambda>t. get_package_directory c t (Source pkg)))
     (\<lambda>pkg_dir.
        (let unlink_dir = pkg_dir @ [''unlink'']
         in then_do
           (\<lambda>s. if exists_path (fs s) unlink_dir
                 then then_do (modify_fs (\<lambda>t. mkdir t pkg_dir))
                        (\<lambda>u. then_do (try_fs (\<lambda>t. os_rename t unlink_dir pkg_dir))
                           (\<lambda>u. modify_fs (\<lambda>t. if use_symlinks c
                                                then symlink_dir t (pkg_dir @ [''install'']) (prefix_dir c)
                                                else copy_dir t (pkg_dir @ [''install'']) (prefix_dir c))))
                        s
                 else (Inr (), s))
           (\<lambda>u s'. case ls (fs s') unlink_dir is_dir of
                      [] \<Rightarrow> (Inr (), s')
                    | dep # deps \<Rightarrow> (Inl AttributeError, s')))))"

subsection \<open>Install\<close>

text \<open>
  \<^verbatim>\<open>create_builder\<close> is a context manager: what precedes its \<^verbatim>\<open>yield\<close> runs on entry, what
  follows runs when the body of the \<^verbatim>\<open>with\<close> block ends without an exception.
\<close>

definition create_builder_enter :: "cget \<Rightarrow> package_build \<Rightarrow> builder m" where
  "create_builder_enter c pb =
     then_do (read_fs (\<lambda>t. get_package_directory c t (Build_of pb)))
       (\<lambda>d s. (Inr \<lparr> b_prefix = prefix_dir c, top_dir = d, b_exists = exists_path (fs s) d \<rparr>,
                s\<lparr>fs := mkdir (fs s) d\<rparr>))"

definition create_builder_exit :: "cget \<Rightarrow> builder \<Rightarrow> bool \<Rightarrow> unit m" where
  "create_builder_exit c b tmp =
     (if os_name c \<noteq> ''nt'' \<and> tmp then modify_fs (\<lambda>t. rmtree t (top_dir b)) else ret ())"

definition install_deps ::
  "(package_build \<Rightarrow> bool \<Rightarrow> bool \<Rightarrow> string m) \<Rightarrow> cget \<Rightarrow> package_build \<Rightarrow> path \<Rightarrow> bool \<Rightarrow> bool \<Rightarrow> bool \<Rightarrow> unit m" where
  \<comment> \<open>\<open>inst dep test_all track\<close> is \<^verbatim>\<open>self.install(dep, test_all=test_all, track=track)\<close>;
      the requirements are read when the loop starts\<close>
  "install_deps inst c pb d tst test_all ignore_reqs s =
     (let req_txt = (if \<not> ignore_reqs
                     then Some (os_path_join (str_of_path d) ''requirements.txt'') else None);
          reqs = (if py_true (requirements pb) then requirements pb else req_txt)
      in for_each (from_file c (fs s) reqs (url (pkg_src pb)) False)
           (\<lambda>dependent.
              (let transient = (test dependent \<or> build dependent);
                   testing = (tst \<or> test_all);
                   installable = (\<not> test dependent \<or> test dependent = testing)
               in if installable
                  then then_do (inst (pb_of c dependent pb) test_all (\<not> transient)) (\<lambda>msg. ret ())
                  else ret ()))
           s)"

definition setup_cmake :: "cget \<Rightarrow> package_build \<Rightarrow> path \<Rightarrow> unit m" where
  \<comment> \<open>the block under \<^verbatim>\<open># Setup cmake file\<close>\<close>
  "setup_cmake c pb src_dir =
     (if py_true (cmake pb)
      then (let target = src_dir @ [''CMakeLists.txt'']
            in then_do
                 (\<lambda>s. if exists_path (fs s) target
                       then try_fs (\<lambda>t. os_rename t target (src_dir @ [cmake_original_file c])) s
                       else (Inr (), s))
                 (\<lambda>u. try_fs (\<lambda>t. copyfile t (path_of (py_str (cmake pb))) target)))
      else ret ())"

fun install :: "nat \<Rightarrow> cget \<Rightarrow> pkg_arg \<Rightarrow> bool \<Rightarrow> bool \<Rightarrow> bool \<Rightarrow> bool \<Rightarrow> string m" where
  \<comment> \<open>the first argument bounds the depth of the recursion through the requirements\<close>
  "install 0 c pkg tst test_all update track s = (Inl RecursionError, s)"
| "install (Suc n) c pkg tst test_all update track s =
     then_do (read_fs (\<lambda>t. parse_pkg_build c t pkg None False))
     (\<lambda>pb. then_do (read_fs (\<lambda>t. get_package_directory c t (Build_of pb)))
     (\<lambda>pkg_dir s.
       (let unlink_dir = pkg_dir @ [''unlink'']
        in if is_dir (fs s) unlink_dir \<and> \<not> update
           then then_do (link c (Build_of pb))
                  (\<lambda>u. then_do (write_parent c pb track)
                  (\<lambda>u. ret (''Linking package '' @ to_name c pb))) s
           else
            (let s1 = (if is_dir (fs s) unlink_dir then s\<lparr>fs := rmtree (fs s) unlink_dir\<rparr> else s)
             in if is_dir (fs s1) pkg_dir \<and> \<not> update
                then then_do (write_parent c pb track)
                       (\<lambda>u. ret (''Package '' @ to_name c pb @ '' already installed'')) s1
                else
                 then_do
                   (\<lambda>s2. if is_dir (fs s2) pkg_dir
                          then then_do (write_parent c pb track) (\<lambda>u. remove c (Build_of pb)) s2
                          else (Inr (), s2))
                   (\<lambda>u. then_do (create_builder_enter c pb)
                   (\<lambda>b. then_do (call_builder b Fetch (b_fetch c b pb))
                   (\<lambda>src_dir. then_do
                      (install_deps (\<lambda>dep ta tr s'. install n c (Build_of dep) False ta False tr s')
                         c pb src_dir tst test_all (ignore_requirements pb))
                   (\<lambda>u. then_do (setup_cmake c pb src_dir)
                   (\<lambda>u. then_do (call_builder b Configure (b_configure c b src_dir pb tst))
                   (\<lambda>u. then_do (call_builder b (Build None) (b_build c b pb None))
                   (\<lambda>u. then_do
                      (if tst \<or> test_all then call_builder b Test (b_test c b pb) else ret ())
                   (\<lambda>u. then_do
                      (call_builder b (Build (Some ''install'')) (b_build c b pb (Some ''install'')))
                   (\<lambda>u. then_do (create_builder_exit c b True)
                   (\<lambda>u. then_do (write_parent c pb track)
                   (\<lambda>u. ret (''Successfully installed '' @ to_name c pb))))))))))))
                   s1)))) s"

declare install.simps [simp del]

definition ignore :: "cget \<Rightarrow> pkg_arg \<Rightarrow> string m" where
  "ignore c pkg =
     then_do (read_fs (\<lambda>t. parse_pkg_build c t pkg None False))
       (\<lambda>pb s.
          (let pkg_dir = get_private_path c @ [to_fname c pb]
           in if \<not> exists_path (fs s) pkg_dir
              then (Inr (''Ignore package '' @ to_name c pb),
                    s\<lparr>fs := mkfile (fs s) pkg_dir ''ignore'' ''ignore''\<rparr>)
              else (Inr (''Package '' @ to_name c pb @ '' already installed''), s)))"

subsection \<open>Listing\<close>

text \<open>
  \<^verbatim>\<open>_list_files\<close> hands its argument to \<^verbatim>\<open>parse_pkg_src\<close> before it tests it for
  \<^verbatim>\<open>None\<close>, and \<^verbatim>\<open>parse_pkg_src\<close> of \<^verbatim>\<open>None\<close> raises. The branch \<^verbatim>\<open>if pkg is None\<close> is
  therefore never taken.
\<close>

definition list_files :: "cget \<Rightarrow> pkg_arg option \<Rightarrow> bool \<Rightarrow> filesys \<Rightarrow> error + string list" where
  "list_files c pkg tp t =
     and_then (parse_pkg_src_of c t pkg None False)
     (\<lambda>pkg. and_then (get_package_directory c t (Source pkg))
     (\<lambda>pkg_dir. and_then (get_deps_directory c t (Token (src_to_fname c pkg)))
     (\<lambda>deps_dir.
        (let l = ls t deps_dir is_file
         in if tp then Inr (src_to_fname c pkg # l) else Inr l))))"

fun list_loop ::
  "(package_source \<Rightarrow> package_source list \<times> error option) \<Rightarrow> cget \<Rightarrow> bool \<Rightarrow> filesys \<Rightarrow> string list
     \<Rightarrow> package_source list \<times> error option" where
  "list_loop rec c recursive t [] = ([], None)"
| "list_loop rec c recursive t (d # ds) =
     (let p = fname_to_pkg c d;
          out = (if exists_path t (get_private_path c @ [d]) then [p] else [])
      in case (if recursive then rec p else ([], None)) of
           (ys, Some e) \<Rightarrow> (out @ ys, Some e)
         | (ys, None) \<Rightarrow>
             (case list_loop rec c recursive t ds of (zs, r) \<Rightarrow> (out @ ys @ zs, r)))"

fun list_pkg ::
  "nat \<Rightarrow> cget \<Rightarrow> pkg_arg option \<Rightarrow> bool \<Rightarrow> bool \<Rightarrow> filesys \<Rightarrow> package_source list \<times> error option" where
  \<comment> \<open>\<^verbatim>\<open>list\<close>, a generator: the values it yields, and the exception that ends it, if any\<close>
  "list_pkg 0 c pkg recursive tp t = ([], Some RecursionError)"
| "list_pkg (Suc n) c pkg recursive tp t =
     (case list_files c pkg tp t of
        Inl e \<Rightarrow> ([], Some e)
      | Inr ds \<Rightarrow> list_loop (\<lambda>p. list_pkg n c (Some (Source p)) recursive False t) c recursive t ds)"

section \<open>Example hosts, stores and collaborators\<close>

text \<open>
  A small installation under \<^verbatim>\<open>/opt\<close> for evaluating the definitions: the identity of a
  package is its name, relative paths are taken from a working directory \<^verbatim>\<open>/work\<close> where
  nothing exists, no specification file lists anything, and the Builder fetches into
  \<^verbatim>\<open>src\<close> below its directory and installs one library into the prefix it is configured
  with.
\<close>

definition demo_cget :: "string \<Rightarrow> bool \<Rightarrow> cget" where
  "demo_cget osn symlinks =
     \<lparr> prefix_dir = [''opt''], os_name = osn, use_symlinks = symlinks,
       to_fname = (\<lambda>pb. py_str (name (pkg_src pb))),
       to_name = (\<lambda>pb. py_str (name (pkg_src pb))),
       src_to_fname = (\<lambda>src. py_str (name src)),
       fname_to_pkg = (\<lambda>d. PackageSource (Some d) None None),
       util_actual_path = (\<lambda>u start. ''/work/'' @ u),
       cget_dir = (\<lambda>p. ''/usr/share/cget/cmake/'' @ p),
       parse_file = (\<lambda>t f u no_recipe. []),
       b_fetch = (\<lambda>b pb t. (Inr (top_dir b @ [''src'']), mkdir t (top_dir b @ [''src'']))),
       b_configure = (\<lambda>b src_dir pb tst t. (Inr (), t)),
       b_build = (\<lambda>b pb target t.
                    if target = Some ''install''
                    then (Inr (), mkfile t (b_prefix b @ [''lib''])
                                    (''lib'' @ py_str (name (pkg_src pb)) @ ''.a'') ''obj'')
                    else (Inr (), t)),
       b_test = (\<lambda>b pb t. (Inr (), t)),
       cmake_original_file = ''CMakeLists.txt.orig'' \<rparr>"

definition zlib_src :: package_source where
  \<comment> \<open>what the raw token \<^verbatim>\<open>zlib\<close> resolves to when no path and no recipe has that name\<close>
  "zlib_src = PackageSource (Some ''zlib'')
                (Some ''https://github.com/zlib/zlib/archive/HEAD.tar.gz'') None"

definition app_src :: package_source where
  "app_src = PackageSource (Some ''app'')
               (Some ''https://github.com/acme/app/archive/HEAD.tar.gz'') None"

definition zlib :: package_build where
  "zlib = PackageBuild zlib_src"

definition fresh :: state where
  \<comment> \<open>an empty store\<close>
  "fresh = \<lparr> fs = [([''opt''], Dir), ([''opt'', ''cget''], Dir)], calls = [] \<rparr>"

definition zlib_entry :: state where
  \<comment> \<open>a store whose only entry is the directory of \<^verbatim>\<open>zlib\<close>\<close>
  "zlib_entry =
     \<lparr> fs = [([''opt''], Dir), ([''opt'', ''cget''], Dir), ([''opt'', ''cget'', ''zlib''], Dir)],
       calls = [] \<rparr>"

definition published :: "bool \<Rightarrow> path \<Rightarrow> string \<Rightarrow> node" where
  \<comment> \<open>how the prefix holds a file of a store entry: a link to it, or a copy\<close>
  "published symlinks target content = (if symlinks then Symlink target else File content)"

definition linked_store :: "bool \<Rightarrow> state" where
  \<comment> \<open>\<^verbatim>\<open>app\<close> and \<^verbatim>\<open>zlib\<close> installed and linked, with the edge "app requires zlib"\<close>
  "linked_store symlinks =
     \<lparr> fs = [([''opt''], Dir), ([''opt'', ''cget''], Dir),
             ([''opt'', ''cget'', ''zlib''], Dir),
             ([''opt'', ''cget'', ''zlib'', ''install''], Dir),
             ([''opt'', ''cget'', ''zlib'', ''install'', ''lib''], Dir),
             ([''opt'', ''cget'', ''zlib'', ''install'', ''lib'', ''libz.a''], File ''z''),
             ([''opt'', ''cget'', ''zlib'', ''.depend''], Dir),
             ([''opt'', ''cget'', ''zlib'', ''.depend'', ''app''], File ''app''),
             ([''opt'', ''cget'', ''app''], Dir),
             ([''opt'', ''cget'', ''app'', ''install''], Dir),
             ([''opt'', ''cget'', ''app'', ''install'', ''bin''], Dir),
             ([''opt'', ''cget'', ''app'', ''install'', ''bin'', ''app''], File ''a''),
             ([''opt'', ''lib''], Dir),
             ([''opt'', ''lib'', ''libz.a''],
                published symlinks [''opt'', ''cget'', ''zlib'', ''install'', ''lib'', ''libz.a''] ''z''),
             ([''opt'', ''bin''], Dir),
             ([''opt'', ''bin'', ''app''],
                published symlinks [''opt'', ''cget'', ''app'', ''install'', ''bin'', ''app''] ''a'')],
       calls = [] \<rparr>"

text \<open>
  The same installation with a recipe for \<^verbatim>\<open>zlib\<close>, whose \<^verbatim>\<open>package.txt\<close> gives the source
  and asks for shared libraries, and a second recipe whose \<^verbatim>\<open>package.txt\<close> is blank. The
  fetch leaves a requirements file, and the one of \<^verbatim>\<open>app\<close> lists \<^verbatim>\<open>zlib\<close>, resolved through
  its recipe, and the build-only \<^verbatim>\<open>gtest\<close>.
\<close>

definition zlib_recipe_build :: package_build where
  "zlib_recipe_build = (PackageBuild zlib_src)\<lparr>pb_define := [(''BUILD_SHARED_LIBS'', ''On'')]\<rparr>"

definition gtest :: package_build where
  \<comment> \<open>a build-only requirement\<close>
  "gtest = (PackageBuild (PackageSource (Some ''gtest'') None None))\<lparr>build := True\<rparr>"

definition recipe_cget :: cget where
  "recipe_cget =
     (demo_cget ''posix'' True)
       \<lparr> parse_file := (\<lambda>t f u no_recipe.
            if f = ''/opt/etc/cget/recipes/zlib/package.txt'' then [zlib_recipe_build]
            else if f = ''/opt/cget/app/src/requirements.txt'' then [zlib_recipe_build, gtest]
            else []),
         b_fetch := (\<lambda>b pb t. (Inr (top_dir b @ [''src'']),
                                mkfile t (top_dir b @ [''src'']) ''requirements.txt'' ''deps'')) \<rparr>"

definition recipe_store :: filesys where
  "recipe_store =
     [([''opt''], Dir), ([''opt'', ''cget''], Dir),
      ([''opt'', ''etc''], Dir), ([''opt'', ''etc'', ''cget''], Dir),
      ([''opt'', ''etc'', ''cget'', ''recipes''], Dir),
      ([''opt'', ''etc'', ''cget'', ''recipes'', ''zlib''], Dir),
      ([''opt'', ''etc'', ''cget'', ''recipes'', ''zlib'', ''package.txt''], File ''zlib''),
      ([''opt'', ''etc'', ''cget'', ''recipes'', ''empty''], Dir),
      ([''opt'', ''etc'', ''cget'', ''recipes'', ''empty'', ''package.txt''], File [])]"

definition recipe_start :: state where
  \<comment> \<open>the recipes, and an empty store\<close>
  "recipe_start = \<lparr> fs = recipe_store, calls = [] \<rparr>"

definition recipe_entry :: state where
  \<comment> \<open>the recipes, and a store whose only entry is the directory of \<^verbatim>\<open>zlib\<close>\<close>
  "recipe_entry = \<lparr> fs = recipe_store @ [([''opt'', ''cget'', ''zlib''], Dir)], calls = [] \<rparr>"

definition unnamed_caller :: package_build where
  \<comment> \<open>a caller's build of the recipe, with no name of its own\<close>
  "unnamed_caller = PackageBuild (PackageSource None None (Some ''/opt/etc/cget/recipes/zlib''))"

definition named_caller :: package_build where
  \<comment> \<open>a caller's build of the recipe under another name, with an option that conflicts\<close>
  "named_caller =
     (PackageBuild (PackageSource (Some ''z'') None (Some ''/opt/etc/cget/recipes/zlib'')))
       \<lparr> pb_define := [(''BUILD_SHARED_LIBS'', ''Off'')] \<rparr>"

text \<open>A host on which no path exists: every lookup of the resolver fails.\<close>

definition bare_host :: host where
  "bare_host = \<lparr> path_exists = (\<lambda>p. False), actual_path = (\<lambda>u start. u),
                 recipe_paths = [''/usr/local/etc/cget/recipes''] \<rparr>"

section \<open>Facts about the string operations\<close>

lemma split_on_ne [simp]: "split_on c s \<noteq> []"
  by (induction s) (auto split: list.splits)

lemma split_on_none: "c \<notin> set s \<Longrightarrow> split_on c s = [s]"
  by (induction s) auto

lemma split_on_app: "c \<notin> set a \<Longrightarrow> split_on c (a @ c # b) = a # split_on c b"
  by (induction a) (auto split: list.splits)

lemma split_on_two: "split_on c s = [a, b] \<Longrightarrow> s = a @ c # b \<and> c \<notin> set a"
proof (induction s arbitrary: a)
  case Nil
  then show ?case by simp
next
  case (Cons x xs)
  show ?case
  proof (cases "x = c")
    case True
    with Cons.prems have "a = []" "split_on c xs = [b]" by auto
    moreover have "xs = b"
    proof (cases "c \<in> set xs")
      case False then show ?thesis using \<open>split_on c xs = [b]\<close> by (simp add: split_on_none)
    next
      case True
      then obtain u v where "xs = u @ c # v" "c \<notin> set u" by (meson split_list_first)
      then show ?thesis using \<open>split_on c xs = [b]\<close> by (simp add: split_on_app)
    qed
    ultimately show ?thesis using True by simp
  next
    case False
    with Cons.prems obtain w where w: "split_on c xs = [w, b]" "a = x # w"
      by (auto split: list.splits)
    from Cons.IH[OF w(1)] w(2) False show ?thesis by simp
  qed
qed

lemma find_at_none: "c \<notin> set s \<Longrightarrow> find_at [c] s k = -1"
  by (induction s arbitrary: k) auto

lemma find_at_some: "c \<in> set s \<Longrightarrow> 0 \<le> find_at [c] s k"
  by (induction s arbitrary: k) auto

lemma py_in_char: "py_in [c] s = (c \<in> set s)"
  unfolding py_in_def py_find_def using find_at_none[of c s 0] find_at_some[of c s 0]
  by (cases "c \<in> set s") auto

lemma find_at_sublist: "(0 \<le> find_at sub s k) = sublist sub s"
  by (induction s arbitrary: k) (auto simp: sublist_Cons_right)

lemma py_in_sublist: "py_in sub s = sublist sub s"
  by (simp add: py_in_def py_find_def find_at_sublist)

lemma py_in_drop: "py_in sub (drop n s) \<Longrightarrow> py_in sub s"
  unfolding py_in_sublist by (meson sublist_drop sublist_order.order_trans)

lemma parse_alias_suffix: "parse_alias tok = (nm, u) \<Longrightarrow> \<exists>n. u = drop n tok"
  unfolding parse_alias_def parse_deprecated_alias_def Let_def
  by (auto split: if_splits intro: exI[of _ 0])

lemma reduce_false: "foldl py_eq (PBool False) (map PStr xs) = PBool False"
  by (induction xs) auto

lemma reduce_truthy:
  "truthy (py_reduce py_eq (map PStr ps)) \<Longrightarrow> 2 \<le> length ps \<Longrightarrow> \<exists>a. ps = [a, a]"
proof -
  assume t: "truthy (py_reduce py_eq (map PStr ps))" and l: "2 \<le> length ps"
  then obtain a b rest where ps: "ps = a # b # rest" by (cases ps; cases "tl ps") auto
  show ?thesis
  proof (cases rest)
    case Nil then show ?thesis using t ps by simp
  next
    case (Cons c cs) then show ?thesis using t ps by (simp add: reduce_false)
  qed
qed

lemma split_on_len: "c \<in> set s \<Longrightarrow> 2 \<le> length (split_on c s)"
  by (induction s) (auto split: list.splits)

lemma src_name_at:
  assumes "CHR ''@'' \<notin> set p" "CHR ''@'' \<notin> set r"
  shows "parse_src_name (p @ ''@'' @ r) d = (fst (parse_src_name p d), Some r)"
    and "snd (parse_src_name p d) = d"
  using assms by (simp_all add: parse_src_name_def split_on_app split_on_none Let_def)

lemma src_name_fst:
  assumes "CHR ''@'' \<notin> set p"
  shows "(let q = fst (parse_src_name p d)
          in if CHR ''/'' \<in> set q then q else q @ ''/'' @ q) =
         (if CHR ''/'' \<in> set p then p else p @ ''/'' @ p)"
proof (cases "CHR ''/'' \<in> set p \<and> truthy (py_reduce py_eq (map PStr (split_on CHR ''/'' p)))")
  case False
  then show ?thesis using assms
    by (auto simp add: parse_src_name_def split_on_none py_in_char Let_def)
next
  case True
  then obtain a where a: "split_on CHR ''/'' p = [a, a]"
    using reduce_truthy split_on_len by blast
  from split_on_two[OF a] have "p = a @ ''/'' @ a" "CHR ''/'' \<notin> set a" by simp_all
  moreover have "fst (parse_src_name p d) = a" using assms True a
    by (simp add: parse_src_name_def split_on_none py_in_char Let_def)
  ultimately show ?thesis by simp
qed

lemma github_url:
  assumes "CHR ''@'' \<notin> set p" "CHR ''@'' \<notin> set r"
  shows "url (parse_src_github nm (p @ ''@'' @ r)) =
           Some (''https://github.com/'' @ (if CHR ''/'' \<in> set p then p else p @ ''/'' @ p)
                 @ ''/archive/'' @ r @ ''.tar.gz'')"
    and "url (parse_src_github nm p) =
           Some (''https://github.com/'' @ (if CHR ''/'' \<in> set p then p else p @ ''/'' @ p)
                 @ ''/archive/HEAD.tar.gz'')"
  using src_name_fst[OF assms(1), of "Some ''HEAD''"] src_name_at[OF assms, of "Some ''HEAD''"]
  by (auto simp add: parse_src_github_def PackageSource_def py_str_def py_in_char Let_def
      split: prod.splits)


section \<open>Facts about merge\<close>

lemma map_of_filter_key:
  "map_of (filter (\<lambda>kv. P (fst kv)) xs) k = (if P k then map_of xs k else None)"
  by (induction xs) auto

lemma merge_defines:
  "map_of (pb_define (merge p other)) = map_of (pb_define p) ++ map_of (pb_define other)"
proof
  fix k
  let ?A = "pb_define p" and ?B = "pb_define other"
  have f: "map_of (filter (\<lambda>kv. fst kv \<notin> fst ` set ?B) ?A) k
             = (if k \<notin> fst ` set ?B then map_of ?A k else None)"
    by (rule map_of_filter_key[where P = "\<lambda>k. k \<notin> fst ` set ?B"])
  have d: "pb_define (merge p other) = filter (\<lambda>kv. fst kv \<notin> fst ` set ?B) ?A @ ?B"
    by (simp add: merge_def)
  show "map_of (pb_define (merge p other)) k = (map_of ?A ++ map_of ?B) k"
  proof (cases "k \<in> fst ` set ?B")
    case True
    then obtain v where "map_of ?B k = Some v"
      by (metis map_of_eq_None_iff not_Some_eq)
    with True show ?thesis unfolding d by (simp add: map_add_def f)
  next
    case False
    then have "map_of ?B k = None" by (simp add: map_of_eq_None_iff)
    with False show ?thesis unfolding d by (simp add: map_add_def f split: option.splits)
  qed
qed

section \<open>Shorthand resolution\<close>

text \<open>
  C5. A raw token with no scheme marker \<^verbatim>\<open>://\<close>, for which neither the local-path lookup
  nor the recipe lookup finds anything, resolves to what \<^verbatim>\<open>parse_src_github\<close> builds:
  a source with no recipe and a remote archive URL. For a shorthand \<open>p\<close> or \<open>p@r\<close> (no
  \<^verbatim>\<open>@\<close> inside \<open>p\<close> or \<open>r\<close>) the URL is
  \<^verbatim>\<open>https://github.com/<owner>/<repo>/archive/<ref>.tar.gz\<close>, where \<open>owner/repo\<close> is \<open>p\<close>
  itself when \<open>p\<close> has a slash and \<open>p/p\<close> when it is bare (the owner defaults to the
  repository name), and the ref is \<open>r\<close>, or \<^verbatim>\<open>HEAD\<close> when none is given. In particular
  \<^verbatim>\<open>foo/bar\<close> gives \<^verbatim>\<open>https://github.com/foo/bar/archive/HEAD.tar.gz\<close> and
  \<^verbatim>\<open>foo/bar@v1.2\<close> gives the same URL with \<^verbatim>\<open>v1.2\<close> in the place of the ref.
\<close>

theorem shorthand_fallback:
  assumes scheme: "\<not> py_in ''://'' tok"
    and split: "parse_alias tok = (nm, u)"
    and nofile: "parse_src_file h nm u start = None"
    and norecipe: "no_recipe \<or> parse_src_recipe h nm u = None"
  shows "parse_pkg_src h tok start no_recipe = parse_src_github nm u
       \<and> recipe (parse_pkg_src h tok start no_recipe) = None
       \<and> (\<forall>p r. CHR ''@'' \<notin> set p \<and> CHR ''@'' \<notin> set r \<longrightarrow>
             (u = p \<longrightarrow> url (parse_pkg_src h tok start no_recipe) =
                Some (''https://github.com/'' @ (if CHR ''/'' \<in> set p then p else p @ ''/'' @ p)
                      @ ''/archive/HEAD.tar.gz''))
           \<and> (u = p @ ''@'' @ r \<longrightarrow> url (parse_pkg_src h tok start no_recipe) =
                Some (''https://github.com/'' @ (if CHR ''/'' \<in> set p then p else p @ ''/'' @ p)
                      @ ''/archive/'' @ r @ ''.tar.gz'')))
       \<and> (tok = ''foo/bar'' \<longrightarrow> url (parse_pkg_src h tok start no_recipe) =
             Some ''https://github.com/foo/bar/archive/HEAD.tar.gz'')
       \<and> (tok = ''foo/bar@v1.2'' \<longrightarrow> url (parse_pkg_src h tok start no_recipe) =
             Some ''https://github.com/foo/bar/archive/v1.2.tar.gz'')"
proof -
  from split obtain n where "u = drop n tok" using parse_alias_suffix by blast
  with scheme have nos: "\<not> py_in ''://'' u" using py_in_drop by blast
  have res: "parse_pkg_src h tok start no_recipe = parse_src_github nm u"
    using split nos nofile norecipe by (auto simp add: parse_pkg_src_def or_else_def)
  have rec: "recipe (parse_src_github nm u) = None"
    by (simp add: parse_src_github_def PackageSource_def Let_def split: prod.splits)
  have gen: "\<forall>p r. CHR ''@'' \<notin> set p \<and> CHR ''@'' \<notin> set r \<longrightarrow>
             (u = p \<longrightarrow> url (parse_src_github nm u) =
                Some (''https://github.com/'' @ (if CHR ''/'' \<in> set p then p else p @ ''/'' @ p)
                      @ ''/archive/HEAD.tar.gz''))
           \<and> (u = p @ ''@'' @ r \<longrightarrow> url (parse_src_github nm u) =
                Some (''https://github.com/'' @ (if CHR ''/'' \<in> set p then p else p @ ''/'' @ p)
                      @ ''/archive/'' @ r @ ''.tar.gz''))"
    using github_url by blast
  have a1: "parse_alias ''foo/bar'' = (None, ''foo/bar'')"
    by (simp add: parse_alias_def parse_deprecated_alias_def py_find_def py_find_to_def
        slice_end_def)
  have a2: "parse_alias ''foo/bar@v1.2'' = (None, ''foo/bar@v1.2'')"
    by (simp add: parse_alias_def parse_deprecated_alias_def py_find_def py_find_to_def
        slice_end_def)
  have e1: "tok = ''foo/bar'' \<longrightarrow> url (parse_src_github nm u) =
             Some ''https://github.com/foo/bar/archive/HEAD.tar.gz''"
    using split a1 github_url(2)[of "''foo/bar''" "[]" nm] by auto
  have e2: "tok = ''foo/bar@v1.2'' \<longrightarrow> url (parse_src_github nm u) =
             Some ''https://github.com/foo/bar/archive/v1.2.tar.gz''"
    using split a2 github_url(1)[of "''foo/bar''" "''v1.2''" nm] by auto
  show ?thesis unfolding res using rec gen e1 e2 by blast
qed

theorem shorthand_fallback_witness:
  "\<not> py_in ''://'' ''zlib@v1.3''
   \<and> parse_alias ''zlib@v1.3'' = (None, ''zlib@v1.3'')
   \<and> parse_src_file bare_host None ''zlib@v1.3'' None = None
   \<and> parse_src_recipe bare_host None ''zlib@v1.3'' = None
   \<and> url (parse_pkg_src bare_host ''zlib@v1.3'' None False) =
       Some ''https://github.com/zlib/zlib/archive/v1.3.tar.gz''"
proof -
  have h1: "\<not> py_in ''://'' ''zlib@v1.3''"
    by (simp add: py_in_def py_find_def)
  have h2: "parse_alias ''zlib@v1.3'' = (None, ''zlib@v1.3'')"
    by (simp add: parse_alias_def parse_deprecated_alias_def py_find_def py_find_to_def
        slice_end_def)
  have h3: "parse_src_file bare_host None ''zlib@v1.3'' None = None"
    by (simp add: parse_src_file_def bare_host_def)
  have h4: "False \<or> parse_src_recipe bare_host None ''zlib@v1.3'' = None"
    by (simp add: parse_src_recipe_def parse_src_name_def bare_host_def split: prod.splits)
  note gen = shorthand_fallback[OF h1 h2 h3 h4, THEN conjunct2, THEN conjunct2, THEN conjunct1,
      rule_format, of "''zlib''" "''v1.3''"]
  then have "url (parse_pkg_src bare_host ''zlib@v1.3'' None False) =
          Some ''https://github.com/zlib/zlib/archive/v1.3.tar.gz''"
    by simp
  with h1 h2 h3 h4 show ?thesis by simp
qed

section \<open>Install after install\<close>

text \<open>
  C1. The claim: a second \<^verbatim>\<open>install\<close> of the same package, \<^verbatim>\<open>update\<close> unset, reports
  "already installed" and does not build. On a host whose \<^verbatim>\<open>os.name\<close> is not \<^verbatim>\<open>nt\<close> the
  code does otherwise: \<^verbatim>\<open>create_builder\<close> is entered with \<^verbatim>\<open>tmp=True\<close> on the directory of
  the store entry itself, and removes that directory when the build has succeeded. For a
  package installed from the command line (no parent, so no marker is written) the entry
  is gone after the first install, and the second install fetches, configures and builds
  again and reports "Successfully installed". Evaluated for the resolved build of \<^verbatim>\<open>zlib\<close>
  and for the raw token \<^verbatim>\<open>zlib\<close>, which resolves to that build.
\<close>

theorem install_twice_builds_twice:
  "fst (install 2 (demo_cget ''posix'' True) (Build_of zlib) False False False True fresh)
     = Inr ''Successfully installed zlib''
   \<and> \<not> exists_path (fs (snd (install 2 (demo_cget ''posix'' True) (Build_of zlib)
                               False False False True fresh)))
         [''opt'', ''cget'', ''zlib'']
   \<and> fst (install 2 (demo_cget ''posix'' True) (Build_of zlib) False False False True
            (snd (install 2 (demo_cget ''posix'' True) (Build_of zlib) False False False True fresh)))
     = Inr ''Successfully installed zlib''
   \<and> map snd (calls (snd (install 2 (demo_cget ''posix'' True) (Build_of zlib) False False False True
            (snd (install 2 (demo_cget ''posix'' True) (Build_of zlib) False False False True fresh)))))
     = [Fetch, Configure, Build None, Build (Some ''install''),
        Fetch, Configure, Build None, Build (Some ''install'')]
   \<and> parse_pkg_build (demo_cget ''posix'' True) (fs fresh) (Token ''zlib'') None False = Inr zlib
   \<and> fst (install 2 (demo_cget ''posix'' True) (Token ''zlib'') False False False True
            (snd (install 2 (demo_cget ''posix'' True) (Token ''zlib'') False False False True fresh)))
     = Inr ''Successfully installed zlib''
   \<and> map snd (calls (snd (install 2 (demo_cget ''posix'' True) (Token ''zlib'') False False False True
            (snd (install 2 (demo_cget ''posix'' True) (Token ''zlib'') False False False True fresh)))))
     = [Fetch, Configure, Build None, Build (Some ''install''),
        Fetch, Configure, Build None, Build (Some ''install'')]"
  by code_simp

section \<open>Unlink, then link\<close>

text \<open>
  C2. The claim: \<^verbatim>\<open>unlink\<close> with \<^verbatim>\<open>delete\<close> unset followed by \<^verbatim>\<open>link\<close> gives back the
  prefix tree. In the code \<^verbatim>\<open>unlink\<close> removes the entry's files from the prefix and then
  raises TypeError (\<^verbatim>\<open>self.get_unlink_directory()\<close> lacks its argument), so the entry is
  never renamed; \<^verbatim>\<open>link\<close> looks for \<^verbatim>\<open>unlink\<close> inside the entry, finds nothing and
  publishes nothing. Evaluated on a store with \<^verbatim>\<open>zlib\<close> linked, by symbolic links and by
  copies: the library is in the prefix before, and is not after.
\<close>

theorem unlink_then_link_loses_prefix:
  "fst (unlink (demo_cget ''posix'' True) (Source zlib_src) False (linked_store True)) = Inl TypeError
   \<and> fst (link (demo_cget ''posix'' True) (Source zlib_src)
            (snd (unlink (demo_cget ''posix'' True) (Source zlib_src) False (linked_store True))))
       = Inr ()
   \<and> lookup (fs (linked_store True)) [''opt'', ''lib'', ''libz.a'']
       = Some (Symlink [''opt'', ''cget'', ''zlib'', ''install'', ''lib'', ''libz.a''])
   \<and> lookup (fs (snd (link (demo_cget ''posix'' True) (Source zlib_src)
            (snd (unlink (demo_cget ''posix'' True) (Source zlib_src) False (linked_store True))))))
         [''opt'', ''lib'', ''libz.a''] = None
   \<and> fst (unlink (demo_cget ''posix'' False) (Source zlib_src) False (linked_store False))
       = Inl TypeError
   \<and> fst (link (demo_cget ''posix'' False) (Source zlib_src)
            (snd (unlink (demo_cget ''posix'' False) (Source zlib_src) False (linked_store False))))
       = Inr ()
   \<and> lookup (fs (linked_store False)) [''opt'', ''lib'', ''libz.a''] = Some (File ''z'')
   \<and> lookup (fs (snd (link (demo_cget ''posix'' False) (Source zlib_src)
            (snd (unlink (demo_cget ''posix'' False) (Source zlib_src) False (linked_store False))))))
         [''opt'', ''lib'', ''libz.a''] = None"
  by code_simp

section \<open>Cascading relink\<close>

text \<open>
  C3. The claim: with the edge "app requires zlib" recorded, after \<^verbatim>\<open>unlink(zlib)\<close> and
  \<^verbatim>\<open>unlink(app)\<close> one \<^verbatim>\<open>link(app)\<close> links \<^verbatim>\<open>zlib\<close> again. In the code both unlinks raise
  TypeError after they have emptied the prefix, no entry reaches the unlinked state, and
  \<^verbatim>\<open>link(app)\<close> returns without linking anything: neither the library of \<^verbatim>\<open>zlib\<close> nor
  the program of \<^verbatim>\<open>app\<close> is in the prefix afterwards.
\<close>

theorem link_does_not_cascade:
  "fst (unlink (demo_cget ''posix'' True) (Source zlib_src) False (linked_store True)) = Inl TypeError
   \<and> fst (unlink (demo_cget ''posix'' True) (Source app_src) False
            (snd (unlink (demo_cget ''posix'' True) (Source zlib_src) False (linked_store True))))
       = Inl TypeError
   \<and> fst (link (demo_cget ''posix'' True) (Source app_src)
            (snd (unlink (demo_cget ''posix'' True) (Source app_src) False
               (snd (unlink (demo_cget ''posix'' True) (Source zlib_src) False (linked_store True))))))
       = Inr ()
   \<and> lookup (fs (snd (link (demo_cget ''posix'' True) (Source app_src)
            (snd (unlink (demo_cget ''posix'' True) (Source app_src) False
               (snd (unlink (demo_cget ''posix'' True) (Source zlib_src) False (linked_store True))))))))
         [''opt'', ''lib'', ''libz.a''] = None
   \<and> lookup (fs (snd (link (demo_cget ''posix'' True) (Source app_src)
            (snd (unlink (demo_cget ''posix'' True) (Source app_src) False
               (snd (unlink (demo_cget ''posix'' True) (Source zlib_src) False (linked_store True))))))))
         [''opt'', ''bin'', ''app''] = None"
  by code_simp

section \<open>Ignore, then install\<close>

text \<open>
  C4. The claim: for every package specification \<^verbatim>\<open>ignore\<close> creates a marker entry and
  reports success when the store has no entry for it. \<^verbatim>\<open>ignore\<close> starts by resolving its
  argument with \<^verbatim>\<open>parse_pkg_build\<close>. For an argument that is not a PackageBuild and that
  names a recipe, \<^verbatim>\<open>parse_pkg_build\<close> calls \<^verbatim>\<open>from_recipe(pkg_src.recipe, pkg_src.name)\<close>:
  the name lands in the parameter \<^verbatim>\<open>pkg\<close>, and \<^verbatim>\<open>pkg.pkg_src.name\<close> raises AttributeError.
  Evaluated for the raw token \<^verbatim>\<open>zlib\<close> on an empty store: with a recipe for \<^verbatim>\<open>zlib\<close>,
  \<^verbatim>\<open>ignore\<close> raises and leaves the store as it was, and so does the \<^verbatim>\<open>install\<close> that
  follows; with no recipe, \<^verbatim>\<open>ignore\<close> creates the entry and reports it.
\<close>

theorem ignore_recipe_token_raises:
  "\<not> exists_path (fs recipe_start) [''opt'', ''cget'', ''zlib'']
   \<and> parse_pkg_build recipe_cget (fs recipe_start) (Token ''zlib'') None False = Inl AttributeError
   \<and> ignore recipe_cget (Token ''zlib'') recipe_start = (Inl AttributeError, recipe_start)
   \<and> install 2 recipe_cget (Token ''zlib'') False False False True recipe_start
       = (Inl AttributeError, recipe_start)
   \<and> \<not> exists_path (fs fresh) [''opt'', ''cget'', ''zlib'']
   \<and> fst (ignore (demo_cget ''posix'' True) (Token ''zlib'') fresh) = Inr ''Ignore package zlib''
   \<and> lookup (fs (snd (ignore (demo_cget ''posix'' True) (Token ''zlib'') fresh)))
         [''opt'', ''cget'', ''zlib'', ''ignore''] = Some (File ''ignore'')"
  by code_simp

section \<open>Transient dependencies are not tracked\<close>

text \<open>
  C6. The claim: a dependency that is test-only or build-only is installed with
  \<^verbatim>\<open>track\<close> false and gets no marker; every other dependency is installed with \<^verbatim>\<open>track\<close>
  true and the edge is recorded. \<^verbatim>\<open>install_deps\<close> does pass \<^verbatim>\<open>track=not transient\<close>, but
  \<^verbatim>\<open>write_parent\<close> hands \<^verbatim>\<open>pb.to_fname()\<close> to \<^verbatim>\<open>get_deps_directory\<close>, which resolves that
  string as a raw token; when the dependency came from a recipe the token names the
  recipe again, and the resolution raises AttributeError (see C4). Evaluated for \<^verbatim>\<open>app\<close>
  whose requirements list \<^verbatim>\<open>zlib\<close>, resolved through its recipe, and the build-only
  \<^verbatim>\<open>gtest\<close>: the requirement resolves to the build of the recipe, which is not
  transient; it is fetched, configured, built and installed; then recording the edge
  raises, the install of \<^verbatim>\<open>app\<close> ends there, and no marker of \<^verbatim>\<open>app\<close> is under \<^verbatim>\<open>zlib\<close>.
  The same install of \<^verbatim>\<open>zlib\<close> with \<^verbatim>\<open>track\<close> false succeeds.
\<close>

theorem tracked_recipe_dependency_not_recorded:
  "parse_pkg_build recipe_cget recipe_store
       (Unresolved ''zlib'' (PackageBuild (PackageSource None None None)))
       (Some ''/opt/cget/app/src'') False = Inr zlib_recipe_build
   \<and> \<not> (test zlib_recipe_build \<or> build zlib_recipe_build)
   \<and> fst (install 3 recipe_cget (Build_of (PackageBuild app_src)) False False False True recipe_start)
       = Inl AttributeError
   \<and> calls (snd (install 3 recipe_cget (Build_of (PackageBuild app_src))
                     False False False True recipe_start))
       = [([''opt'', ''cget'', ''app''], Fetch),
          ([''opt'', ''cget'', ''zlib''], Fetch),
          ([''opt'', ''cget'', ''zlib''], Configure),
          ([''opt'', ''cget'', ''zlib''], Build None),
          ([''opt'', ''cget'', ''zlib''], Build (Some ''install''))]
   \<and> lookup (fs (snd (install 3 recipe_cget (Build_of (PackageBuild app_src))
                          False False False True recipe_start)))
         [''opt'', ''cget'', ''zlib'', ''.depend'', ''app''] = None
   \<and> fst (install 2 recipe_cget (Build_of (pb_of recipe_cget zlib_recipe_build (PackageBuild app_src)))
            False False False True recipe_start) = Inl AttributeError
   \<and> fst (install 2 recipe_cget (Build_of (pb_of recipe_cget zlib_recipe_build (PackageBuild app_src)))
            False False False False recipe_start) = Inr ''Successfully installed zlib''"
  by code_simp

section \<open>Recipe expansion\<close>

text \<open>
  C7, as amended. For every recipe directory and every PackageBuild of the caller,
  \<^verbatim>\<open>from_recipe\<close> fails with a configuration error when the recipe directory has no
  \<^verbatim>\<open>package.txt\<close>. When \<^verbatim>\<open>package.txt\<close> yields at least one build, the result is made from
  the first one: its recipe pointer is cleared; its requirements file is the caller's
  when the caller has one, else the sibling \<^verbatim>\<open>requirements.txt\<close> when that exists, else
  the one of \<^verbatim>\<open>package.txt\<close>; its options are the recipe's overridden field by field by
  the caller's; and when the caller's source has a name, that is its name.
\<close>

theorem recipe_expansion:
  "(\<not> str_exists t (os_path_join rcp ''package.txt'')
      \<longrightarrow> from_recipe c t rcp (BuildCaller caller) nm = Inl ConfigurationError)
   \<and> (\<forall>p rest. from_file c t (Some (os_path_join rcp ''package.txt'')) None True = p # rest
        \<longrightarrow> (\<exists>r. from_recipe c t rcp (BuildCaller caller) nm = Inr r
               \<and> recipe (pkg_src r) = None
               \<and> url (pkg_src r) = url (pkg_src p)
               \<and> (\<forall>n. name (pkg_src caller) = Some n \<longrightarrow> name (pkg_src r) = Some n)
               \<and> requirements r =
                   or_else (requirements caller)
                     (if str_exists t (os_path_join rcp ''requirements.txt'')
                      then Some (os_path_join rcp ''requirements.txt'') else requirements p)
               \<and> map_of (pb_define r) = map_of (pb_define p) ++ map_of (pb_define caller)
               \<and> variant r = or_else (variant caller) (variant p)
               \<and> cmake r = or_else (cmake caller) (cmake p)
               \<and> test r = (test caller \<or> test p)
               \<and> build r = (build caller \<or> build p)
               \<and> ignore_requirements r = (ignore_requirements caller \<or> ignore_requirements p)))"
proof (intro conjI allI impI)
  assume "\<not> str_exists t (os_path_join rcp ''package.txt'')"
  then show "from_recipe c t rcp (BuildCaller caller) nm = Inl ConfigurationError"
    by (simp add: from_recipe_def ensure_exists_def and_then_def)
next
  fix p rest
  assume ff: "from_file c t (Some (os_path_join rcp ''package.txt'')) None True = p # rest"
  then have ex: "str_exists t (os_path_join rcp ''package.txt'')"
    by (simp add: from_file_def split: if_splits)
  show "\<exists>r. from_recipe c t rcp (BuildCaller caller) nm = Inr r
               \<and> recipe (pkg_src r) = None
               \<and> url (pkg_src r) = url (pkg_src p)
               \<and> (\<forall>n. name (pkg_src caller) = Some n \<longrightarrow> name (pkg_src r) = Some n)
               \<and> requirements r =
                   or_else (requirements caller)
                     (if str_exists t (os_path_join rcp ''requirements.txt'')
                      then Some (os_path_join rcp ''requirements.txt'') else requirements p)
               \<and> map_of (pb_define r) = map_of (pb_define p) ++ map_of (pb_define caller)
               \<and> variant r = or_else (variant caller) (variant p)
               \<and> cmake r = or_else (cmake caller) (cmake p)
               \<and> test r = (test caller \<or> test p)
               \<and> build r = (build caller \<or> build p)
               \<and> ignore_requirements r = (ignore_requirements caller \<or> ignore_requirements p)"
    using ex ff
    by (simp add: from_recipe_def ensure_exists_def and_then_def Let_def merge_defines)
       (simp add: merge_def)
qed

theorem recipe_expansion_witness:
  "from_file recipe_cget recipe_store (Some (os_path_join ''/opt/etc/cget/recipes/zlib'' ''package.txt''))
       None True = [zlib_recipe_build]
   \<and> (\<exists>r. from_recipe recipe_cget recipe_store ''/opt/etc/cget/recipes/zlib''
             (BuildCaller named_caller) None = Inr r
          \<and> recipe (pkg_src r) = None
          \<and> name (pkg_src r) = Some ''z''
          \<and> map_of (pb_define r) ''BUILD_SHARED_LIBS'' = Some ''Off'')"
proof -
  have h: "from_file recipe_cget recipe_store
             (Some (os_path_join ''/opt/etc/cget/recipes/zlib'' ''package.txt'')) None True
             = zlib_recipe_build # []"
    by code_simp
  have n: "name (pkg_src named_caller) = Some ''z''" by code_simp
  have d: "(map_of (pb_define zlib_recipe_build) ++ map_of (pb_define named_caller))
             ''BUILD_SHARED_LIBS'' = Some ''Off''"
    by (simp add: named_caller_def)
  from recipe_expansion[of recipe_store "''/opt/etc/cget/recipes/zlib''" recipe_cget
      named_caller None, THEN conjunct2, rule_format, OF h]
  obtain r where r: "from_recipe recipe_cget recipe_store ''/opt/etc/cget/recipes/zlib''
                       (BuildCaller named_caller) None = Inr r"
      "recipe (pkg_src r) = None"
      "\<forall>n. name (pkg_src named_caller) = Some n \<longrightarrow> name (pkg_src r) = Some n"
      "map_of (pb_define r) = map_of (pb_define zlib_recipe_build) ++ map_of (pb_define named_caller)"
    by blast
  from r n d h show ?thesis by auto
qed

text \<open>
  C7 as it was stated fails in two places. A \<^verbatim>\<open>package.txt\<close> that is present but yields
  no build ends in StopIteration, neither in a configuration error nor in a
  PackageBuild. And for a caller's build whose source has no name the result has no
  name either, although the recipe names the package \<^verbatim>\<open>zlib\<close>.
\<close>

theorem recipe_expansion_counterexample:
  "str_exists recipe_store ''/opt/etc/cget/recipes/empty/package.txt''
   \<and> from_recipe recipe_cget recipe_store ''/opt/etc/cget/recipes/empty''
        (BuildCaller unnamed_caller) None = Inl StopIteration
   \<and> name (pkg_src unnamed_caller) = None
   \<and> map name (map pkg_src (from_file recipe_cget recipe_store
                               (Some ''/opt/etc/cget/recipes/zlib/package.txt'') None True))
       = [Some ''zlib'']
   \<and> from_recipe recipe_cget recipe_store ''/opt/etc/cget/recipes/zlib''
        (BuildCaller unnamed_caller) None
       = Inr ((PackageBuild (PackageSource None
                 (Some ''https://github.com/zlib/zlib/archive/HEAD.tar.gz'') None))
               \<lparr>pb_define := [(''BUILD_SHARED_LIBS'', ''On'')]\<rparr>)"
  by code_simp

section \<open>Recording a dependency edge\<close>

text \<open>
  C8. The claim: for every child and parent identity, recording the edge twice leaves
  exactly one marker in the child's dependency-record directory. \<^verbatim>\<open>write_parent\<close> does
  not take the directory of the child from its identity: it hands \<^verbatim>\<open>pb.to_fname()\<close> to
  \<^verbatim>\<open>get_deps_directory\<close>, which resolves the string as a raw token. For a child whose
  identity is the name of a recipe the resolution raises AttributeError (see C4), and
  recording the edge, once or twice, leaves no marker. Evaluated for the child \<^verbatim>\<open>zlib\<close>
  and the parent \<^verbatim>\<open>app\<close> on a store that holds the entry of \<^verbatim>\<open>zlib\<close>: with a recipe for
  \<^verbatim>\<open>zlib\<close> nothing is written; with no recipe the marker is written, once.
\<close>

theorem write_parent_recipe_child_raises:
  "to_fname recipe_cget (zlib\<lparr>parent := Some ''app''\<rparr>) = ''zlib''
   \<and> get_deps_directory recipe_cget (fs recipe_entry) (Token ''zlib'') = Inl AttributeError
   \<and> write_parent recipe_cget (zlib\<lparr>parent := Some ''app''\<rparr>) True recipe_entry
       = (Inl AttributeError, recipe_entry)
   \<and> write_parent recipe_cget (zlib\<lparr>parent := Some ''app''\<rparr>) True
        (snd (write_parent recipe_cget (zlib\<lparr>parent := Some ''app''\<rparr>) True recipe_entry))
       = (Inl AttributeError, recipe_entry)
   \<and> ls (fs recipe_entry) [''opt'', ''cget'', ''zlib'', ''.depend''] is_file = []
   \<and> fst (write_parent (demo_cget ''posix'' True) (zlib\<lparr>parent := Some ''app''\<rparr>) True zlib_entry)
       = Inr ()
   \<and> ls (fs (snd (write_parent (demo_cget ''posix'' True) (zlib\<lparr>parent := Some ''app''\<rparr>) True
                    (snd (write_parent (demo_cget ''posix'' True) (zlib\<lparr>parent := Some ''app''\<rparr>)
                            True zlib_entry)))))
         [''opt'', ''cget'', ''zlib'', ''.depend''] is_file = [''app'']"
  by code_simp

section \<open>Listing the store\<close>

text \<open>
  C9. The claim: \<^verbatim>\<open>list\<close> with no package enumerates the entries of the store. In the
  code \<^verbatim>\<open>_list_files\<close> resolves its argument before it tests it for \<^verbatim>\<open>None\<close>, so for
  every store, with \<^verbatim>\<open>recursive\<close> set or not, the generator yields nothing and raises.
\<close>

theorem list_without_package_raises:
  "list_pkg (Suc n) c None recursive tp t = ([], Some AttributeError)"
  by (simp add: list_files_def and_then_def)

section \<open>An entry that exists counts as installed\<close>

text \<open>
  C10. The claim: for every package whose entry exists in the store and is not unlinked,
  \<^verbatim>\<open>install\<close> with \<^verbatim>\<open>update\<close> unset returns the "already installed" report. On a store
  that holds the entry of \<^verbatim>\<open>zlib\<close> and a recipe for \<^verbatim>\<open>zlib\<close> the code raises instead, in
  two places. Given the raw token, \<^verbatim>\<open>install\<close> raises AttributeError while it resolves
  its argument (see C4). Given the resolved build as a dependency of \<^verbatim>\<open>app\<close>, \<^verbatim>\<open>install\<close>
  finds the entry and calls \<^verbatim>\<open>write_parent\<close> before it returns; that resolves the
  identity \<^verbatim>\<open>zlib\<close> as a raw token and raises the same error (see C8). With \<^verbatim>\<open>track\<close>
  false nothing is recorded and the report is returned.
\<close>

theorem install_existing_entry_raises:
  "is_dir (fs recipe_entry) [''opt'', ''cget'', ''zlib'']
   \<and> \<not> is_dir (fs recipe_entry) [''opt'', ''cget'', ''zlib'', ''unlink'']
   \<and> install 2 recipe_cget (Token ''zlib'') False False False True recipe_entry
       = (Inl AttributeError, recipe_entry)
   \<and> get_package_directory recipe_cget (fs recipe_entry) (Build_of (zlib\<lparr>parent := Some ''app''\<rparr>))
       = Inr [''opt'', ''cget'', ''zlib'']
   \<and> install 2 recipe_cget (Build_of (zlib\<lparr>parent := Some ''app''\<rparr>)) False False False True
        recipe_entry = (Inl AttributeError, recipe_entry)
   \<and> install 2 recipe_cget (Build_of (zlib\<lparr>parent := Some ''app''\<rparr>)) False False False False
        recipe_entry = (Inr ''Package zlib already installed'', recipe_entry)"
  by code_simp

end
